theory Spec2Isabelle
  imports Main "HOL-Library.Word"
begin

section \<open>The Python values server.py computes with\<close>

text \<open>
  A Python \<open>str\<close> is modelled as a HOL \<open>string\<close>, each \<open>char\<close> standing for the code
  point of the same number (0 to 255); every string server.py builds is ASCII, and the
  request path is decoded by http.server as ISO-8859-1; a value of \<open>PORT\<close> with a code
  point above 255 is outside the model. A Python \<open>int\<close> is an \<open>int\<close>,
  \<open>bytes\<close> is a list of 8-bit words. CPython refuses to convert between an int and a
  decimal string of more than 4300 digits; \<open>int(s)\<close> below has that limit, so the
  configured port never has more digits, and \<open>str(i)\<close> is modelled without it.
\<close>

datatype py_error = ValueError | OSError | OverflowError

type_synonym bytes = "8 word list"

definition digit_char :: "nat \<Rightarrow> char" where
  "digit_char d = ''0123456789abcdef'' ! d"

fun digits_of :: "nat \<Rightarrow> string" where
  "digits_of n =
     (if n < 10 then [digit_char n] else digits_of (n div 10) @ [digit_char (n mod 10)])"

declare digits_of.simps [simp del]

definition py_str :: "int \<Rightarrow> string" where
  \<comment> \<open>\<open>str(i)\<close> and \<open>f'{i}'\<close> of an int: decimal digits, a minus sign when negative.\<close>
  "py_str i = (if i < 0 then CHR ''-'' # digits_of (nat (- i)) else digits_of (nat i))"

definition encode_char :: "char \<Rightarrow> bytes" where
  \<comment> \<open>UTF-8 of one code point below 256: one byte below 128, two bytes from 128 on.\<close>
  "encode_char c =
     (let n = (of_char c :: nat) in
      if n < 128 then [word_of_nat n]
      else [word_of_nat (192 + n div 64), word_of_nat (128 + n mod 64)])"

definition encode_utf8 :: "string \<Rightarrow> bytes" where
  \<comment> \<open>\<open>s.encode('utf-8')\<close>\<close>
  "encode_utf8 s = concat (map encode_char s)"

subsection \<open>\<open>int(s)\<close> of a string\<close>

definition is_space :: "char \<Rightarrow> bool" where
  \<comment> \<open>the white space \<open>int\<close> strips: tab to carriage return and the space, and, of the
      code points from 128 on, those that \<open>str.isspace\<close> accepts (they are turned into
      spaces first); the separators 28 to 31 are not stripped\<close>
  "is_space c =
     (let n = (of_char c :: nat) in
      (9 \<le> n \<and> n \<le> 13) \<or> n = 32 \<or> n = 133 \<or> n = 160)"

definition is_digit :: "char \<Rightarrow> bool" where
  "is_digit c = (let n = (of_char c :: nat) in 48 \<le> n \<and> n \<le> 57)"

definition digit_val :: "char \<Rightarrow> nat" where
  "digit_val c = of_char c - 48"

definition strip :: "string \<Rightarrow> string" where
  "strip s = rev (dropWhile is_space (rev (dropWhile is_space s)))"

fun digit_group :: "string \<Rightarrow> bool" where
  \<comment> \<open>decimal digits, single underscores allowed between two digits only\<close>
  "digit_group [] = False"
| "digit_group [c] = is_digit c"
| "digit_group (c # d # r) =
     (is_digit c \<and> (if d = CHR ''_'' then digit_group r else digit_group (d # r)))"

definition dec_value :: "string \<Rightarrow> nat" where
  "dec_value ds = foldl (\<lambda>acc c. 10 * acc + digit_val c) 0 ds"

definition max_str_digits :: nat where
  \<comment> \<open>CPython's default limit on the digits of a decimal string converted to an int\<close>
  "max_str_digits = 4300"

definition py_int :: "string \<Rightarrow> py_error + int" where
  \<comment> \<open>\<open>int(s)\<close>, base 10: white space stripped, an optional sign, then the digits;
      anything else, and more digits than the limit, raises ValueError.\<close>
  "py_int s =
     (let t = strip s;
          neg = (t \<noteq> [] \<and> hd t = CHR ''-'');
          r = (if t \<noteq> [] \<and> (hd t = CHR ''-'' \<or> hd t = CHR ''+'') then tl t else t);
          ds = filter (\<lambda>c. c \<noteq> CHR ''_'') r
      in if digit_group r \<and> length ds \<le> max_str_digits
         then (let v = int (dec_value ds) in Inr (if neg then - v else v))
         else Inl ValueError)"

subsection \<open>\<open>json.dumps\<close> of the health dictionary\<close>

text \<open>
  The dictionary server.py serialises maps string keys to a bool, a string and an int.
  A dict keeps its insertion order, so it is an association list.
\<close>

datatype jvalue = JBool bool | JStr string | JInt int

definition hex4 :: "nat \<Rightarrow> string" where
  "hex4 n = [digit_char (n div 4096 mod 16), digit_char (n div 256 mod 16),
             digit_char (n div 16 mod 16), digit_char (n mod 16)]"

definition escape_char :: "char \<Rightarrow> string" where
  \<comment> \<open>\<open>json.encoder.py_encode_basestring_ascii\<close>, one character\<close>
  "escape_char c =
     (if c = CHR ''\"'' then [CHR 0x5C, CHR ''\"'']
      else if c = CHR 0x5C then [CHR 0x5C, CHR 0x5C]
      else if c = CHR 0x0A then [CHR 0x5C, CHR ''n'']
      else if c = CHR 0x0D then [CHR 0x5C, CHR ''r'']
      else if c = CHR 0x09 then [CHR 0x5C, CHR ''t'']
      else if c = CHR 0x08 then [CHR 0x5C, CHR ''b'']
      else if c = CHR 0x0C then [CHR 0x5C, CHR ''f'']
      else if (of_char c :: nat) < 32 \<or> 126 < (of_char c :: nat)
        then [CHR 0x5C, CHR ''u''] @ hex4 (of_char c)
      else [c])"

definition dumps_str :: "string \<Rightarrow> string" where
  "dumps_str s = [CHR ''\"''] @ concat (map escape_char s) @ [CHR ''\"'']"

fun dumps_value :: "jvalue \<Rightarrow> string" where
  "dumps_value (JBool b) = (if b then ''true'' else ''false'')"
| "dumps_value (JStr s) = dumps_str s"
| "dumps_value (JInt i) = py_str i"

fun join :: "string \<Rightarrow> string list \<Rightarrow> string" where
  "join sep [] = []"
| "join sep [x] = x"
| "join sep (x # y # r) = x @ sep @ join sep (y # r)"

definition dumps :: "(string \<times> jvalue) list \<Rightarrow> string" where
  \<comment> \<open>\<open>json.dumps\<close> of a dict with the default separators \<open>', '\<close> and \<open>': '\<close>\<close>
  "dumps d = ''{'' @ join '', '' (map (\<lambda>(k, v). dumps_str k @ '': '' @ dumps_value v) d) @ ''}''"

section \<open>The request handler\<close>

text \<open>
  A handler object of \<open>http.server.BaseHTTPRequestHandler\<close>: the fields the library has
  filled in when \<open>do_GET\<close> is called (\<open>path\<close>, \<open>requestline\<close>, \<open>request_version\<close>), what
  the library reads from its surroundings while answering (the clock, its own version
  string), and what the handler has sent so far: the status lines and the headers put in
  the headers buffer, whether the buffer has been flushed, the bytes the handler itself
  has written to \<open>wfile\<close>, and the lines it has printed.

  \<open>request_version\<close> is the last word of a request line of three words, and \<open>HTTP/0.9\<close>
  for a request line of two words (\<open>GET /health\<close>), which the library hands to \<open>do_GET\<close>
  as well. For such a request the library sends no status line and no header.
\<close>

record handler =
  path :: string
  requestline :: string
  request_version :: string
  date_time_string :: string
  version_string :: string
  statuses :: "int list"
  headers :: "(string \<times> string) list"
  headers_ended :: bool
  wfile :: bytes
  printed :: "string list"

definition log_message :: "string \<Rightarrow> handler \<Rightarrow> handler" where
  \<comment> \<open>\<open>print('[python-basic]', format % args)\<close>; the argument is \<open>format % args\<close>\<close>
  "log_message msg h = h\<lparr>printed := printed h @ [''[python-basic]'' @ '' '' @ msg]\<rparr>"

definition log_request :: "int \<Rightarrow> handler \<Rightarrow> handler" where
  \<comment> \<open>the library's \<open>log_message('"%s" %s %s', requestline, str(code), '-')\<close>\<close>
  "log_request code h =
     log_message ([CHR ''\"''] @ requestline h @ [CHR ''\"''] @ '' '' @ py_str code @ '' -'') h"

definition send_response_only :: "int \<Rightarrow> handler \<Rightarrow> handler" where
  \<comment> \<open>the library's \<open>send_response_only\<close>: the status line, unless the request is HTTP/0.9\<close>
  "send_response_only code h =
     (if request_version h \<noteq> ''HTTP/0.9'' then h\<lparr>statuses := statuses h @ [code]\<rparr> else h)"

definition send_header :: "string \<Rightarrow> string \<Rightarrow> handler \<Rightarrow> handler" where
  \<comment> \<open>the library's \<open>send_header\<close>: one header, unless the request is HTTP/0.9\<close>
  "send_header k v h =
     (if request_version h \<noteq> ''HTTP/0.9'' then h\<lparr>headers := headers h @ [(k, v)]\<rparr> else h)"

definition send_response :: "int \<Rightarrow> handler \<Rightarrow> handler" where
  \<comment> \<open>the library's \<open>send_response\<close>: logs the request, sends the status line, then the
      Server and Date headers\<close>
  "send_response code h =
     (let h1 = log_request code h;
          h2 = send_response_only code h1;
          h3 = send_header ''Server'' (version_string h2) h2
      in send_header ''Date'' (date_time_string h3) h3)"

definition end_headers :: "handler \<Rightarrow> handler" where
  \<comment> \<open>the library's \<open>end_headers\<close>: ends and flushes the headers, unless the request is
      HTTP/0.9\<close>
  "end_headers h =
     (if request_version h \<noteq> ''HTTP/0.9'' then h\<lparr>headers_ended := True\<rparr> else h)"

definition wfile_write :: "bytes \<Rightarrow> handler \<Rightarrow> handler" where
  "wfile_write b h = h\<lparr>wfile := wfile h @ b\<rparr>"

definition health_body :: "int \<Rightarrow> bytes" where
  "health_body PORT =
     encode_utf8 (dumps [(''ok'', JBool True), (''service'', JStr ''python-basic''),
                         (''port'', JInt PORT)])"

definition plain_body :: "int \<Rightarrow> bytes" where
  "plain_body PORT = encode_utf8 (''python-basic running on '' @ py_str PORT @ [CHR 0x0A])"

definition do_GET :: "int \<Rightarrow> handler \<Rightarrow> handler" where
  "do_GET PORT self =
     (if path self = ''/health'' then
        (let body = health_body PORT;
             s1 = send_response 200 self;
             s2 = send_header ''Content-Type'' ''application/json'' s1;
             s3 = send_header ''Content-Length'' (py_str (int (length body))) s2;
             s4 = end_headers s3
         in wfile_write body s4)
      else
        (let body = plain_body PORT;
             s1 = send_response 200 self;
             s2 = send_header ''Content-Type'' ''text/plain'' s1;
             s3 = send_header ''Content-Length'' (py_str (int (length body))) s2;
             s4 = end_headers s3
         in wfile_write body s4))"

section \<open>The process: module load and the main block\<close>

definition resolve_port :: "(string \<rightharpoonup> string) \<Rightarrow> py_error + int" where
  \<comment> \<open>\<open>PORT = int(os.environ.get('PORT', '3300'))\<close>\<close>
  "resolve_port environ =
     py_int (case environ ''PORT'' of None \<Rightarrow> ''3300'' | Some v \<Rightarrow> v)"

text \<open>
  A request as the library hands it to \<open>do_GET\<close>: the path, the request line and the
  request version it has parsed, and the reading of the clock while the request is
  answered.
\<close>

record request =
  req_path :: string
  req_line :: string
  req_version :: string
  req_date :: string

record response =
  status :: "int list"
  header_list :: "(string \<times> string) list"
  body :: bytes

datatype event = Bound string int | Stdout string | Served response

definition new_handler :: "string \<Rightarrow> request \<Rightarrow> handler" where
  "new_handler ver rq =
     \<lparr>path = req_path rq, requestline = req_line rq, request_version = req_version rq,
      date_time_string = req_date rq, version_string = ver, statuses = [], headers = [], headers_ended = False,
      wfile = [], printed = []\<rparr>"

definition respond :: "int \<Rightarrow> string \<Rightarrow> request \<Rightarrow> response" where
  \<comment> \<open>what one GET request is answered with: the status lines and headers the library
      has sent, and the body the handler has written\<close>
  "respond PORT ver rq =
     (let h = do_GET PORT (new_handler ver rq)
      in \<lparr>status = statuses h, header_list = headers h, body = wfile h\<rparr>)"

definition handle_one_request :: "int \<Rightarrow> string \<Rightarrow> request \<Rightarrow> event list" where
  \<comment> \<open>one GET request: the lines the handler prints, then the response on the wire\<close>
  "handle_one_request PORT ver rq =
     map Stdout (printed (do_GET PORT (new_handler ver rq))) @ [Served (respond PORT ver rq)]"

fun serve_forever :: "int \<Rightarrow> string \<Rightarrow> request list \<Rightarrow> event list" where
  \<comment> \<open>the accept loop, on the GET requests that have arrived so far, one after the other\<close>
  "serve_forever PORT ver [] = []"
| "serve_forever PORT ver (rq # rqs) =
     handle_one_request PORT ver rq @ serve_forever PORT ver rqs"

definition HTTPServer :: "(string \<times> int \<Rightarrow> py_error option) \<Rightarrow> string \<times> int \<Rightarrow> py_error option" where
  \<comment> \<open>creating the server binds the socket: a port outside 0..65535 is refused, and
      otherwise the operating system decides (\<open>os_bind\<close>)\<close>
  "HTTPServer os_bind addr =
     (if snd addr < 0 \<or> 65535 < snd addr then Some OverflowError else os_bind addr)"

definition startup_line :: "int \<Rightarrow> string" where
  "startup_line PORT = ''[python-basic] listening on http://localhost:'' @ py_str PORT"

definition main ::
  "(string \<rightharpoonup> string) \<Rightarrow> (string \<times> int \<Rightarrow> py_error option) \<Rightarrow> string \<Rightarrow> request list
     \<Rightarrow> event list \<times> py_error option" where
  \<comment> \<open>the run of server.py as a script: what has happened once the given requests have
      been served, and the exception that ended the process, if one did\<close>
  "main environ os_bind ver rqs =
     (case resolve_port environ of
        Inl e \<Rightarrow> ([], Some e)
      | Inr PORT \<Rightarrow>
          (case HTTPServer os_bind (''0.0.0.0'', PORT) of
             Some e \<Rightarrow> ([], Some e)
           | None \<Rightarrow>
               (Bound ''0.0.0.0'' PORT # Stdout (startup_line PORT) # serve_forever PORT ver rqs,
                None)))"

definition header_values :: "string \<Rightarrow> response \<Rightarrow> string list" where
  \<comment> \<open>the values of all the headers of a response that carry the given name\<close>
  "header_values k r = map snd (filter (\<lambda>kv. fst kv = k) (header_list r))"

definition responses :: "event list \<Rightarrow> response list" where
  \<comment> \<open>the responses of a run, in the order they were sent\<close>
  "responses evs = concat (map (\<lambda>e. case e of Served r \<Rightarrow> [r] | _ \<Rightarrow> []) evs)"

definition listening_lines :: "event list \<Rightarrow> string list" where
  \<comment> \<open>the printed lines of a run that announce a listening address\<close>
  "listening_lines evs =
     concat (map (\<lambda>e. case e of
                        Stdout l \<Rightarrow>
                          if take 45 l = ''[python-basic] listening on http://localhost:''
                          then [l] else []
                      | _ \<Rightarrow> []) evs)"

section \<open>Facts about the conversions\<close>

lemma lt10_cases: "d < 10 \<Longrightarrow> d \<in> {0, 1, 2, 3, 4, 5, 6, 7, 8, 9::nat}"
  by auto

lemma digit_char_is_digit: "d < 10 \<Longrightarrow> is_digit (digit_char d)"
  using lt10_cases [of d] by (auto simp: digit_char_def is_digit_def)


lemma digits_of_is_digit: "c \<in> set (digits_of n) \<Longrightarrow> is_digit c"
proof (induction n arbitrary: c rule: digits_of.induct)
  case (1 n)
  show ?case
  proof (cases "n < 10")
    case True
    with "1.prems" show ?thesis
      by (simp add: digits_of.simps [of n] digit_char_is_digit)
  next
    case False
    with "1.prems" "1.IH" show ?thesis
      by (auto simp: digits_of.simps [of n] digit_char_is_digit)
  qed
qed




lemma is_digit_ascii: "is_digit c \<Longrightarrow> (of_char c :: nat) < 128"
  by (simp add: is_digit_def Let_def)

lemma encode_utf8_length: "\<forall>c \<in> set s. (of_char c :: nat) < 128 \<Longrightarrow> length (encode_utf8 s) = length s"
  by (induction s) (simp_all add: encode_utf8_def encode_char_def)

lemma py_str_ascii: "c \<in> set (py_str i) \<Longrightarrow> (of_char c :: nat) < 128"
  by (auto simp: py_str_def dest: digits_of_is_digit is_digit_ascii split: if_splits)

lemma encode_utf8_append: "encode_utf8 (a @ b) = encode_utf8 a @ encode_utf8 b"
  by (simp add: encode_utf8_def)

lemma length_encode_py_str: "length (encode_utf8 (py_str i)) = length (py_str i)"
  by (rule encode_utf8_length) (auto dest: py_str_ascii)

lemma dumps_health:
  "dumps [(''ok'', JBool True), (''service'', JStr ''python-basic''), (''port'', JInt P)] =
     ''{\"ok\": true, \"service\": \"python-basic\", \"port\": '' @ py_str P @ ''}''"
  by (simp add: dumps_def dumps_str_def escape_char_def)

lemma respond_health:
  "req_path rq = ''/health'' \<Longrightarrow> req_version rq \<noteq> ''HTTP/0.9'' \<Longrightarrow>
   respond P ver rq =
     \<lparr>status = [200],
      header_list = [(''Server'', ver), (''Date'', req_date rq),
                     (''Content-Type'', ''application/json''),
                     (''Content-Length'', py_str (int (length (health_body P))))],
      body = health_body P\<rparr>"
  by (simp add: respond_def do_GET_def new_handler_def send_response_def send_header_def
      send_response_only_def log_request_def log_message_def end_headers_def wfile_write_def
      Let_def)

lemma respond_plain:
  "req_path rq \<noteq> ''/health'' \<Longrightarrow> req_version rq \<noteq> ''HTTP/0.9'' \<Longrightarrow>
   respond P ver rq =
     \<lparr>status = [200],
      header_list = [(''Server'', ver), (''Date'', req_date rq),
                     (''Content-Type'', ''text/plain''),
                     (''Content-Length'', py_str (int (length (plain_body P))))],
      body = plain_body P\<rparr>"
  by (simp add: respond_def do_GET_def new_handler_def send_response_def send_header_def
      send_response_only_def log_request_def log_message_def end_headers_def wfile_write_def
      Let_def)

lemma respond_simple_request:
  "req_version rq = ''HTTP/0.9'' \<Longrightarrow>
   respond P ver rq =
     \<lparr>status = [], header_list = [],
      body = (if req_path rq = ''/health'' then health_body P else plain_body P)\<rparr>"
  by (simp add: respond_def do_GET_def new_handler_def send_response_def send_header_def
      send_response_only_def log_request_def log_message_def end_headers_def wfile_write_def
      Let_def)

lemma body_respond:
  "body (respond P ver rq) = (if req_path rq = ''/health'' then health_body P else plain_body P)"
  by (cases "req_version rq = ''HTTP/0.9''"; cases "req_path rq = ''/health''")
    (simp_all add: respond_health respond_plain respond_simple_request)

lemma status_respond:
  "status (respond P ver rq) = (if req_version rq = ''HTTP/0.9'' then [] else [200])"
  by (cases "req_version rq = ''HTTP/0.9''"; cases "req_path rq = ''/health''")
    (simp_all add: respond_health respond_plain respond_simple_request)

lemma length_health_body: "length (health_body P) = 49 + length (py_str P)"
proof -
  let ?s = "''{\"ok\": true, \"service\": \"python-basic\", \"port\": '' @ py_str P @ ''}''"
  have "\<forall>c \<in> set ?s. (of_char c :: nat) < 128"
    by (auto dest: py_str_ascii)
  then have "length (encode_utf8 ?s) = length ?s"
    by (rule encode_utf8_length)
  then show ?thesis
    by (simp add: health_body_def dumps_health)
qed

lemma length_plain_body: "length (plain_body P) = 25 + length (py_str P)"
proof -
  let ?s = "''python-basic running on '' @ py_str P @ [CHR 0x0A]"
  have "\<forall>c \<in> set ?s. (of_char c :: nat) < 128"
    by (auto dest: py_str_ascii)
  then have "length (encode_utf8 ?s) = length ?s"
    by (rule encode_utf8_length)
  then show ?thesis
    by (simp add: plain_body_def)
qed


lemma is_digit_not_space: "is_digit c \<Longrightarrow> \<not> is_space c"
  by (auto simp: is_digit_def is_space_def Let_def)

lemma is_digit_not_mark: "is_digit c \<Longrightarrow> c \<noteq> CHR ''_'' \<and> c \<noteq> CHR ''-'' \<and> c \<noteq> CHR ''+''"
  by (auto simp: is_digit_def Let_def)

lemma strip_id: "s \<noteq> [] \<Longrightarrow> \<not> is_space (hd s) \<Longrightarrow> \<not> is_space (last s) \<Longrightarrow> strip s = s"
proof -
  assume a: "s \<noteq> []" "\<not> is_space (hd s)" "\<not> is_space (last s)"
  from a have "dropWhile is_space s = s"
    by (cases s) simp_all
  moreover from a have "dropWhile is_space (rev s) = rev s"
    by (cases "rev s") (simp_all add: last_rev [symmetric] hd_rev)
  ultimately show ?thesis
    by (simp add: strip_def)
qed

lemma digit_group_digits: "ds \<noteq> [] \<Longrightarrow> list_all is_digit ds \<Longrightarrow> digit_group ds"
  by (induction ds rule: digit_group.induct) (auto dest: is_digit_not_mark)

lemma filter_digits: "list_all is_digit ds \<Longrightarrow> filter (\<lambda>c. c \<noteq> CHR ''_'') ds = ds"
  by (induction ds) (auto dest: is_digit_not_mark)

lemma py_int_digits:
  assumes "ds \<noteq> []" "list_all is_digit ds" "length ds \<le> 4300"
  shows "py_int ds = Inr (int (dec_value ds))"
proof -
  from assms have h: "is_digit (hd ds)" and l: "is_digit (last ds)"
    by (auto simp: list_all_iff)
  then have "strip ds = ds"
    using assms(1) by (simp add: strip_id is_digit_not_space)
  moreover from h have "hd ds \<noteq> CHR ''-''" "hd ds \<noteq> CHR ''+''"
    by (auto dest: is_digit_not_mark)
  ultimately show ?thesis
    using assms by (simp add: py_int_def Let_def digit_group_digits filter_digits max_str_digits_def)
qed




lemma responses_serve_forever: "responses (serve_forever P ver rqs) = map (respond P ver) rqs"
  by (induction rqs) (simp_all add: responses_def handle_one_request_def)

lemma dropWhile_keeps: "x \<in> set xs \<Longrightarrow> \<not> P x \<Longrightarrow> x \<in> set (dropWhile P xs)"
  by (induction xs) auto

lemma strip_keeps: "c \<in> set s \<Longrightarrow> \<not> is_space c \<Longrightarrow> c \<in> set (strip s)"
  by (simp add: strip_def dropWhile_keeps)

lemma digit_group_chars: "digit_group r \<Longrightarrow> c \<in> set r \<Longrightarrow> is_digit c \<or> c = CHR ''_''"
  by (induction r rule: digit_group.induct) (auto split: if_splits)

lemma py_int_foreign_char:
  assumes "c \<in> set v" "\<not> is_digit c" "\<not> is_space c"
    and "c \<noteq> CHR ''+''" "c \<noteq> CHR ''-''" "c \<noteq> CHR ''_''"
  shows "py_int v = Inl ValueError"
proof -
  let ?t = "strip v"
  let ?r = "if ?t \<noteq> [] \<and> (hd ?t = CHR ''-'' \<or> hd ?t = CHR ''+'') then tl ?t else ?t"
  from assms have t: "c \<in> set ?t"
    by (simp add: strip_keeps)
  then have "c \<in> set ?r"
    using assms(4,5) by (cases ?t) auto
  with assms(2,6) have "\<not> digit_group ?r"
    using digit_group_chars by blast
  then show ?thesis
    by (simp add: py_int_def Let_def)
qed

lemma py_int_error: "py_int v = Inl e \<Longrightarrow> e = ValueError"
  by (simp add: py_int_def Let_def split: if_splits)

lemma resolve_port_default: "environ ''PORT'' = None \<Longrightarrow> resolve_port environ = Inr 3300"
  using py_int_digits [of "''3300''"]
  by (simp add: resolve_port_def is_digit_def dec_value_def digit_val_def)




lemma bodies_differ: "plain_body P \<noteq> health_body P"
proof
  assume "plain_body P = health_body P"
  then have "length (plain_body P) = length (health_body P)"
    by simp
  then show False
    by (simp add: length_plain_body length_health_body)
qed





lemma printed_do_GET:
  "printed (do_GET P (new_handler ver rq)) =
     [''[python-basic] \"'' @ req_line rq @ ''\" '' @ py_str 200 @ '' -'']"
  by (cases "req_version rq = ''HTTP/0.9''")
    (simp_all add: do_GET_def new_handler_def send_response_def send_header_def
      send_response_only_def log_request_def log_message_def end_headers_def wfile_write_def
      Let_def)

lemma listening_lines_serve_forever: "listening_lines (serve_forever P ver rqs) = []"
  by (induction rqs) (simp_all add: listening_lines_def handle_one_request_def printed_do_GET)

section \<open>The responses\<close>







text \<open>
  C3, as amended: in both branches and for every port, a response to a request whose
  version is not HTTP/0.9 carries exactly one Content-Length header, and its value is the
  decimal number of bytes of the body that was written; the body has 49 bytes (health) or
  25 bytes (catch-all) plus one byte for each character of \<open>str(P)\<close>. A response to an
  HTTP/0.9 request has the same body and no Content-Length header.
\<close>

theorem content_length_exact:
  "header_values ''Content-Length'' (respond P ver rq) =
     (if req_version rq = ''HTTP/0.9'' then []
      else [py_str (int (length (body (respond P ver rq))))]) \<and>
   length (body (respond P ver rq)) =
     (if req_path rq = ''/health'' then 49 else 25) + length (py_str P)"
  by (cases "req_version rq = ''HTTP/0.9''"; cases "req_path rq = ''/health''")
    (simp_all add: respond_health respond_plain respond_simple_request header_values_def
      length_health_body length_plain_body)

theorem content_length_exact_witness:
  "header_values ''Content-Length'' (respond 7 ''BaseHTTP/0.6''
     \<lparr>req_path = ''/'', req_line = ''GET / HTTP/1.1'', req_version = ''HTTP/1.1'', req_date = ''Thu''\<rparr>) = [''26''] \<and>
   header_values ''Content-Length'' (respond 65535 ''BaseHTTP/0.6''
     \<lparr>req_path = ''/health'', req_line = ''GET /health HTTP/1.1'', req_version = ''HTTP/1.1'', req_date = ''Thu''\<rparr>) = [''54'']"
proof -
  let ?a = "\<lparr>req_path = ''/'', req_line = ''GET / HTTP/1.1'', req_version = ''HTTP/1.1'', req_date = ''Thu''\<rparr>"
  let ?b = "\<lparr>req_path = ''/health'', req_line = ''GET /health HTTP/1.1'', req_version = ''HTTP/1.1'', req_date = ''Thu''\<rparr>"
  note a = content_length_exact [of 7 "''BaseHTTP/0.6''" ?a]
  note b = content_length_exact [of 65535 "''BaseHTTP/0.6''" ?b]
  have la: "length (body (respond 7 ''BaseHTTP/0.6'' ?a)) = 26"
    using a [THEN conjunct2] by (simp add: py_str_def digits_of.simps digit_char_def)
  have lb: "length (body (respond 65535 ''BaseHTTP/0.6'' ?b)) = 54"
    using b [THEN conjunct2] by (simp add: py_str_def digits_of.simps digit_char_def)
  have sa: "py_str 26 = ''26''" and sb: "py_str 54 = ''54''"
    by (simp_all add: py_str_def digits_of.simps digit_char_def)
  have ha: "header_values ''Content-Length'' (respond 7 ''BaseHTTP/0.6'' ?a) = [''26'']"
    using a [THEN conjunct1] unfolding la by (simp add: sa)
  have hb: "header_values ''Content-Length'' (respond 65535 ''BaseHTTP/0.6'' ?b) = [''54'']"
    using b [THEN conjunct1] unfolding lb by (simp add: sb)
  show ?thesis
    by (intro conjI) (rule ha hb)+
qed

text \<open>
  C3, as stated, fails: the answer to the version-less request line \<open>GET /\<close> at port 7 has a
  body of 26 bytes and no Content-Length header.
\<close>

theorem content_length_counterexample:
  "header_values ''Content-Length'' (respond 7 ''BaseHTTP/0.6''
     \<lparr>req_path = ''/'', req_line = ''GET /'', req_version = ''HTTP/0.9'', req_date = ''Thu''\<rparr>) = [] \<and>
   length (body (respond 7 ''BaseHTTP/0.6''
     \<lparr>req_path = ''/'', req_line = ''GET /'', req_version = ''HTTP/0.9'', req_date = ''Thu''\<rparr>)) = 26"
  by (simp add: respond_simple_request header_values_def length_plain_body py_str_def
      digits_of.simps digit_char_def)

text \<open>
  C5, as amended: whatever the path, the handler sends no status other than 200: exactly
  one status, 200, when the request version is not HTTP/0.9, and no status line at all
  for an HTTP/0.9 request.
\<close>

theorem status_200_or_none:
  "status (respond P ver rq) = (if req_version rq = ''HTTP/0.9'' then [] else [200]) \<and>
   set (status (respond P ver rq)) \<subseteq> {200}"
  by (simp add: status_respond)

theorem status_200_or_none_witness:
  "status (respond 3300 ''BaseHTTP/0.6''
     \<lparr>req_path = ''/missing'', req_line = ''GET /missing HTTP/1.1'', req_version = ''HTTP/1.1'', req_date = ''Thu''\<rparr>) = [200]"
  using status_200_or_none [of 3300 "''BaseHTTP/0.6''"
      "\<lparr>req_path = ''/missing'', req_line = ''GET /missing HTTP/1.1'', req_version = ''HTTP/1.1'', req_date = ''Thu''\<rparr>"]
  by simp

text \<open>
  C5, as stated, fails: for the version-less request line \<open>GET /missing\<close> the handler
  sends no status at all.
\<close>

theorem status_200_counterexample:
  "status (respond 3300 ''BaseHTTP/0.6''
     \<lparr>req_path = ''/missing'', req_line = ''GET /missing'', req_version = ''HTTP/0.9'', req_date = ''Thu''\<rparr>) = []"
  by (simp add: respond_simple_request)

text \<open>
  C6: the health body is the text \<open>{"ok": true, "service": "python-basic", "port": P}\<close>
  with the fields in the order ok, service, port.
\<close>

theorem health_field_order:
  "req_path rq = ''/health'' \<Longrightarrow>
     body (respond P ver rq) =
       encode_utf8 (''{\"ok\": true, \"service\": \"python-basic\", \"port\": '' @ py_str P @ ''}'')"
  by (simp add: body_respond health_body_def dumps_health)

theorem health_field_order_witness:
  "req_path \<lparr>req_path = ''/health'', req_line = ''GET /health HTTP/1.1'', req_version = ''HTTP/1.1'', req_date = ''Thu''\<rparr>
     = ''/health'' \<and>
   body (respond 4000 ''BaseHTTP/0.6''
     \<lparr>req_path = ''/health'', req_line = ''GET /health HTTP/1.1'', req_version = ''HTTP/1.1'', req_date = ''Thu''\<rparr>) =
     encode_utf8 (''{\"ok\": true, \"service\": \"python-basic\", \"port\": '' @ py_str 4000 @ ''}'')"
  using health_field_order
    [of "\<lparr>req_path = ''/health'', req_line = ''GET /health HTTP/1.1'', req_version = ''HTTP/1.1'', req_date = ''Thu''\<rparr>"
        4000 "''BaseHTTP/0.6''"]
  by simp

text \<open>
  C9: a request target that carries a query string after \<open>/health\<close>, such as
  \<open>/health?probe=1\<close>, is not equal to \<open>/health\<close>. It gets the answer of the catch-all
  branch, the same as the path \<open>/\<close> gets: the plain-text body, with Content-Type
  \<open>text/plain\<close> whenever headers are sent (the request version is not HTTP/0.9). That
  answer differs from the answer to \<open>/health\<close>, and its body is not the health body.
\<close>

theorem query_string_not_health:
  "req_path rq = ''/health?'' @ q \<Longrightarrow>
     req_path rq \<noteq> ''/health'' \<and>
     respond P ver rq = respond P ver (rq\<lparr>req_path := ''/''\<rparr>) \<and>
     body (respond P ver rq) =
       encode_utf8 (''python-basic running on '' @ py_str P @ [CHR 0x0A]) \<and>
     body (respond P ver rq) \<noteq> body (respond P ver (rq\<lparr>req_path := ''/health''\<rparr>)) \<and>
     header_values ''Content-Type'' (respond P ver rq) =
       (if req_version rq = ''HTTP/0.9'' then [] else [''text/plain'']) \<and>
     respond P ver rq \<noteq> respond P ver (rq\<lparr>req_path := ''/health''\<rparr>)"
proof -
  assume a: "req_path rq = ''/health?'' @ q"
  then have ne: "req_path rq \<noteq> ''/health''"
    by simp
  have b: "body (respond P ver rq) \<noteq> body (respond P ver (rq\<lparr>req_path := ''/health''\<rparr>))"
    using ne by (simp add: body_respond bodies_differ)
  then have r: "respond P ver rq \<noteq> respond P ver (rq\<lparr>req_path := ''/health''\<rparr>)"
    by auto
  have s: "respond P ver rq = respond P ver (rq\<lparr>req_path := ''/''\<rparr>)"
    using ne
    by (cases "req_version rq = ''HTTP/0.9''")
      (simp_all add: respond_plain respond_simple_request)
  have t: "body (respond P ver rq) =
      encode_utf8 (''python-basic running on '' @ py_str P @ [CHR 0x0A])"
    using ne by (simp add: body_respond plain_body_def)
  have h: "header_values ''Content-Type'' (respond P ver rq) =
      (if req_version rq = ''HTTP/0.9'' then [] else [''text/plain''])"
    using ne
    by (cases "req_version rq = ''HTTP/0.9''")
      (simp_all add: respond_plain respond_simple_request header_values_def)
  show ?thesis
    by (intro conjI) (rule ne s t b h r)+
qed

theorem query_string_not_health_witness:
  "req_path \<lparr>req_path = ''/health?probe=1'', req_line = ''GET /health?probe=1 HTTP/1.1'', req_version = ''HTTP/1.1'', req_date = ''Thu''\<rparr> = ''/health?'' @ ''probe=1'' \<and>
   header_values ''Content-Type'' (respond 3300 ''BaseHTTP/0.6''
     \<lparr>req_path = ''/health?probe=1'', req_line = ''GET /health?probe=1 HTTP/1.1'', req_version = ''HTTP/1.1'', req_date = ''Thu''\<rparr>) = [''text/plain''] \<and>
   body (respond 3300 ''BaseHTTP/0.6''
     \<lparr>req_path = ''/health?probe=1'', req_line = ''GET /health?probe=1 HTTP/1.1'', req_version = ''HTTP/1.1'', req_date = ''Thu''\<rparr>) =
     encode_utf8 (''python-basic running on 3300'' @ [CHR 0x0A])"
proof -
  let ?rq = "\<lparr>req_path = ''/health?probe=1'', req_line = ''GET /health?probe=1 HTTP/1.1'', req_version = ''HTTP/1.1'', req_date = ''Thu''\<rparr>"
  have p: "req_path ?rq = ''/health?'' @ ''probe=1''"
    by simp
  note t = query_string_not_health [OF p, of 3300 "''BaseHTTP/0.6''"]
  have s: "py_str 3300 = ''3300''"
    by (simp add: py_str_def digits_of.simps digit_char_def)
  have h: "header_values ''Content-Type'' (respond 3300 ''BaseHTTP/0.6'' ?rq) = [''text/plain'']"
    using t [THEN conjunct2, THEN conjunct2, THEN conjunct2, THEN conjunct2, THEN conjunct1]
    by simp
  have b: "body (respond 3300 ''BaseHTTP/0.6'' ?rq) =
      encode_utf8 (''python-basic running on 3300'' @ [CHR 0x0A])"
    using t [THEN conjunct2, THEN conjunct2, THEN conjunct1] unfolding s by simp
  show ?thesis
    by (intro conjI) (rule p h b)+
qed

section \<open>The process\<close>



text \<open>
  C8: when the port is resolved and the socket is bound, the run starts with the binding
  and the line \<open>[python-basic] listening on http://localhost:PORT\<close>, ahead of everything
  the accept loop does; no response precedes it, and it is the only printed line of the
  run that announces a listening address.
\<close>

theorem startup_line_once:
  "resolve_port environ = Inr P \<Longrightarrow> HTTPServer os_bind (''0.0.0.0'', P) = None \<Longrightarrow>
     fst (main environ os_bind ver rqs) =
       Bound ''0.0.0.0'' P # Stdout (startup_line P) # serve_forever P ver rqs \<and>
     listening_lines (fst (main environ os_bind ver rqs)) =
       [''[python-basic] listening on http://localhost:'' @ py_str P] \<and>
     responses [Bound ''0.0.0.0'' P, Stdout (startup_line P)] = [] \<and>
     responses (serve_forever P ver rqs) = map (respond P ver) rqs"
  by (simp add: main_def listening_lines_def [of "_ # _"] startup_line_def
      listening_lines_serve_forever [unfolded listening_lines_def] responses_serve_forever
      responses_def [of "[_, _]"])

theorem startup_line_once_witness:
  "resolve_port Map.empty = Inr 3300 \<and> HTTPServer (\<lambda>a. None) (''0.0.0.0'', 3300) = None \<and>
   fst (main Map.empty (\<lambda>a. None) ''BaseHTTP/0.6''
       [\<lparr>req_path = ''/'', req_line = ''GET / HTTP/1.1'', req_version = ''HTTP/1.1'', req_date = ''Thu''\<rparr>]) =
     Bound ''0.0.0.0'' 3300 # Stdout (startup_line 3300) #
       serve_forever 3300 ''BaseHTTP/0.6''
         [\<lparr>req_path = ''/'', req_line = ''GET / HTTP/1.1'', req_version = ''HTTP/1.1'', req_date = ''Thu''\<rparr>] \<and>
   listening_lines (fst (main Map.empty (\<lambda>a. None) ''BaseHTTP/0.6''
       [\<lparr>req_path = ''/'', req_line = ''GET / HTTP/1.1'', req_version = ''HTTP/1.1'', req_date = ''Thu''\<rparr>])) =
     [''[python-basic] listening on http://localhost:3300'']"
proof -
  let ?rqs = "[\<lparr>req_path = ''/'', req_line = ''GET / HTTP/1.1'', req_version = ''HTTP/1.1'', req_date = ''Thu''\<rparr>]"
  have r: "resolve_port Map.empty = Inr 3300"
    by (simp add: resolve_port_default)
  have h: "HTTPServer (\<lambda>a. None) (''0.0.0.0'', 3300) = None"
    by (simp add: HTTPServer_def)
  have s: "py_str 3300 = ''3300''"
    by (simp add: py_str_def digits_of.simps digit_char_def)
  note t = startup_line_once [OF r h, of "''BaseHTTP/0.6''" ?rqs]
  note t1 = t [THEN conjunct1]
  have t2: "listening_lines (fst (main Map.empty (\<lambda>a. None) ''BaseHTTP/0.6'' ?rqs)) =
      [''[python-basic] listening on http://localhost:3300'']"
    using t [THEN conjunct2, THEN conjunct1] unfolding s by simp
  show ?thesis
    by (intro conjI) (rule r h t1 t2)+
qed

text \<open>
  C10: when \<open>PORT\<close> is set and \<open>int\<close> of its value raises, the run ends with ValueError
  and nothing has happened: no socket is bound and no line is printed. The empty string
  and \<open>'abc'\<close> are such values, and so are \<open>'3300'\<close> behind the separator 0x1C, which \<open>int\<close>
  does not strip, and every string holding a character that is not a digit, white space
  that \<open>int\<close> strips, a sign or an underscore.
\<close>

theorem invalid_port_terminates:
  "(environ ''PORT'' = Some v \<and> py_int v = Inl e \<longrightarrow>
      main environ os_bind ver rqs = ([], Some ValueError)) \<and>
   py_int '''' = Inl ValueError \<and>
   py_int ''abc'' = Inl ValueError \<and>
   py_int (CHR 0x1C # ''3300'') = Inl ValueError \<and>
   ((\<exists>c \<in> set v. \<not> is_digit c \<and> \<not> is_space c \<and> c \<noteq> CHR ''+'' \<and> c \<noteq> CHR ''-'' \<and> c \<noteq> CHR ''_'')
      \<longrightarrow> py_int v = Inl ValueError)"
proof -
  have "main environ os_bind ver rqs = ([], Some ValueError)"
    if "environ ''PORT'' = Some v" "py_int v = Inl e"
    using that py_int_error [of v e] by (simp add: main_def resolve_port_def)
  moreover have "py_int '''' = Inl ValueError"
    by (simp add: py_int_def strip_def)
  moreover have "py_int ''abc'' = Inl ValueError"
    by (rule py_int_foreign_char [of "CHR ''a''"]) (simp_all add: is_digit_def is_space_def)
  moreover have "py_int (CHR 0x1C # ''3300'') = Inl ValueError"
    by (rule py_int_foreign_char [of "CHR 0x1C"]) (simp_all add: is_digit_def is_space_def)
  moreover have "py_int v = Inl ValueError"
    if "\<exists>c \<in> set v. \<not> is_digit c \<and> \<not> is_space c \<and> c \<noteq> CHR ''+'' \<and> c \<noteq> CHR ''-'' \<and> c \<noteq> CHR ''_''"
    using that py_int_foreign_char by blast
  ultimately show ?thesis
    by blast
qed

theorem invalid_port_terminates_witness:
  "[''PORT'' \<mapsto> ''abc''] ''PORT'' = Some ''abc'' \<and> py_int ''abc'' = Inl ValueError \<and>
   main [''PORT'' \<mapsto> ''abc''] (\<lambda>a. None) ''BaseHTTP/0.6''
     [\<lparr>req_path = ''/'', req_line = ''GET / HTTP/1.1'', req_version = ''HTTP/1.1'', req_date = ''Thu''\<rparr>]
     = ([], Some ValueError) \<and>
   CHR ''a'' \<in> set ''abc'' \<and> \<not> is_digit CHR ''a'' \<and> \<not> is_space CHR ''a''"
  using invalid_port_terminates
    [of "[''PORT'' \<mapsto> ''abc'']" "''abc''" ValueError "\<lambda>a. None" "''BaseHTTP/0.6''"
        "[\<lparr>req_path = ''/'', req_line = ''GET / HTTP/1.1'', req_version = ''HTTP/1.1'', req_date = ''Thu''\<rparr>]"]
  by (simp add: is_digit_def is_space_def)




end
